theory Spec2Isabelle
  imports Main "HOL-Library.Sublist"
begin

section \<open>pySim transport link: data model\<close>

text \<open>
  The exceptions that can travel through the send chain of \<^verbatim>\<open>LinkBase\<close>.
  \<^verbatim>\<open>SwMatchError\<close> carries the observed status word and the expected pattern, in the
  order of the constructor call \<^verbatim>\<open>SwMatchError(rv[1], sw.lower())\<close>.
  \<^verbatim>\<open>RecursionError\<close> is what the interpreter raises at a call that would exceed its
  recursion limit; it is a subclass of \<^verbatim>\<open>Exception\<close>.
  \<^verbatim>\<open>KeyboardInterrupt\<close> stands for the exceptions of Python that derive from
  \<^verbatim>\<open>BaseException\<close> only, which the clause \<^verbatim>\<open>except Exception\<close> does not catch.
\<close>

datatype exn =
    NoCardError
  | ReaderError
  | ProtocolError
  | SwMatchError "string option" string
  | RecursionError
  | OtherException string
  | KeyboardInterrupt

text \<open>
  Modelled from the spec: the module \<^verbatim>\<open>pySim.exceptions\<close> that declares
  \<^verbatim>\<open>NoCardError\<close>, \<^verbatim>\<open>ReaderError\<close>, \<^verbatim>\<open>ProtocolError\<close> and \<^verbatim>\<open>SwMatchError\<close> is not among
  the sources. The spec lists them as the error surface of the transport; they are
  taken as ordinary subclasses of \<^verbatim>\<open>Exception\<close>, so \<^verbatim>\<open>isinstance(e, Exception)\<close> holds
  for each of them.
\<close>

fun isinstance_Exception :: "exn \<Rightarrow> bool" where
  "isinstance_Exception KeyboardInterrupt = False"
| "isinstance_Exception _ = True"

text \<open>
  A response is the pair \<^verbatim>\<open>(data, sw)\<close>: the data as a hex string, and the status
  word as a hex string or Python's \<^verbatim>\<open>None\<close>.
\<close>

type_synonym resp = "string \<times> string option"

text \<open>
  The object \<^verbatim>\<open>self\<close>: the state of the channel below the link (whatever the subclass
  keeps: the reader connection, the card), and the records handed to \<^verbatim>\<open>logging.info\<close>.
\<close>

record 's link =
  chan :: 's
  log_records :: "string list"

text \<open>
  The method \<^verbatim>\<open>self.send_apdu_raw\<close> as a subclass provides it: it takes the pdu and the
  channel state, and raises or returns a response, with the new channel state.
\<close>

type_synonym 's raw_channel = "string \<Rightarrow> 's \<Rightarrow> (exn + resp) \<times> 's"

definition logging_info :: "string \<Rightarrow> 's link \<Rightarrow> 's link" where
  "logging_info msg w = w\<lparr>log_records := log_records w @ [msg]\<rparr>"

text \<open>The f-string \<^verbatim>\<open>f"eception occured when sending apdu {pdu}, retry..."\<close>.\<close>

definition retry_message :: "string \<Rightarrow> string" where
  "retry_message pdu = ''eception occured when sending apdu '' @ pdu @ '', retry...''"

section \<open>LinkBase.send_apdu_failsafe\<close>

text \<open>
  \<^verbatim>\<open>
  try:
      data, sw = self.send_apdu_raw(pdu)
      return data, sw
  except Exception as e1:
      if retry_attempts > 0:
          logging.info(f"eception occured when sending apdu {pdu}, retry...")
          return self.send_apdu_failsafe(pdu, retry_attempts-1)
      raise
  \<close>
  \<^verbatim>\<open>retry_attempts\<close> is a Python integer, so it is an \<^typ>\<open>int\<close> here and may be negative.
  Here the stack of the interpreter is taken as deep enough for the recursion;
  \<open>send_apdu_failsafe_frames\<close> below bounds it.
\<close>

function send_apdu_failsafe ::
  "'s raw_channel \<Rightarrow> string \<Rightarrow> int \<Rightarrow> 's link \<Rightarrow> (exn + resp) \<times> 's link" where
  "send_apdu_failsafe raw pdu retry_attempts w =
     (case raw pdu (chan w) of
        (Inr (data, sw), c) \<Rightarrow> (Inr (data, sw), w\<lparr>chan := c\<rparr>)
      | (Inl e1, c) \<Rightarrow>
          if isinstance_Exception e1 then
            (if retry_attempts > 0 then
               send_apdu_failsafe raw pdu (retry_attempts - 1)
                 (logging_info (retry_message pdu) (w\<lparr>chan := c\<rparr>))
             else (Inl e1, w\<lparr>chan := c\<rparr>))
          else (Inl e1, w\<lparr>chan := c\<rparr>))"
  by pat_completeness auto
termination
  by (relation "measure (\<lambda>(raw, pdu, n, w). nat n)") auto

declare send_apdu_failsafe.simps [simp del]

text \<open>
  The same method with the stack of the interpreter made explicit. Every retry is a
  nested call of \<^verbatim>\<open>send_apdu_failsafe\<close> and takes a frame; \<open>frames\<close> is the number of
  nested calls of the method that the recursion limit of the interpreter
  (\<^verbatim>\<open>sys.getrecursionlimit()\<close>, 1000 unless changed) still admits below the current one.
  When none is left, the call \<^verbatim>\<open>self.send_apdu_failsafe(pdu, retry_attempts-1)\<close> raises
  \<^verbatim>\<open>RecursionError\<close>; it stands in the \<^verbatim>\<open>except\<close> block, outside every \<^verbatim>\<open>try\<close>, so the
  exception leaves each of the enclosing calls and reaches the caller.
\<close>

fun send_apdu_failsafe_frames ::
  "nat \<Rightarrow> 's raw_channel \<Rightarrow> string \<Rightarrow> int \<Rightarrow> 's link \<Rightarrow> (exn + resp) \<times> 's link" where
  "send_apdu_failsafe_frames frames raw pdu retry_attempts w =
     (case raw pdu (chan w) of
        (Inr (data, sw), c) \<Rightarrow> (Inr (data, sw), w\<lparr>chan := c\<rparr>)
      | (Inl e1, c) \<Rightarrow>
          if isinstance_Exception e1 then
            (if retry_attempts > 0 then
               (case frames of
                  0 \<Rightarrow> (Inl RecursionError,
                        logging_info (retry_message pdu) (w\<lparr>chan := c\<rparr>))
                | Suc frames_left \<Rightarrow>
                    send_apdu_failsafe_frames frames_left raw pdu (retry_attempts - 1)
                      (logging_info (retry_message pdu) (w\<lparr>chan := c\<rparr>)))
             else (Inl e1, w\<lparr>chan := c\<rparr>))
          else (Inl e1, w\<lparr>chan := c\<rparr>))"

declare send_apdu_failsafe_frames.simps [simp del]

section \<open>LinkBase.send_apdu\<close>

text \<open>
  \<^verbatim>\<open>
  data, sw = self.send_apdu_failsafe(pdu, retry_attempts)
  if (sw is not None) and ((sw[0:2] == '9f') or (sw[0:2] == '61')):
      pdu_gr = pdu[0:2] + 'c00000' + sw[2:4]
      data, sw = self.send_apdu_failsafe(pdu_gr, retry_attempts)
  return data, sw
  \<close>
  A slice \<^verbatim>\<open>s[0:2]\<close> of a Python string is \<^term>\<open>take 2 s\<close> and \<^verbatim>\<open>s[2:4]\<close> is
  \<^term>\<open>take 2 (drop 2 s)\<close>: both are shorter when the string is. An exception of the
  first send leaves the method at once.
\<close>

definition send_apdu ::
  "'s raw_channel \<Rightarrow> string \<Rightarrow> int \<Rightarrow> 's link \<Rightarrow> (exn + resp) \<times> 's link" where
  "send_apdu raw pdu retry_attempts w =
     (case send_apdu_failsafe raw pdu retry_attempts w of
        (Inl e, w1) \<Rightarrow> (Inl e, w1)
      | (Inr (data, sw), w1) \<Rightarrow>
          (case sw of
             None \<Rightarrow> (Inr (data, sw), w1)
           | Some s \<Rightarrow>
               if take 2 s = ''9f'' \<or> take 2 s = ''61'' then
                 (let pdu_gr = take 2 pdu @ ''c00000'' @ take 2 (drop 2 s)
                  in send_apdu_failsafe raw pdu_gr retry_attempts w1)
               else (Inr (data, sw), w1)))"

section \<open>LinkBase.send_apdu_checksw\<close>

text \<open>
  \<^verbatim>\<open>str.lower()\<close> on the characters of a hex string or a pattern: the letters
  \<^verbatim>\<open>A\<close> to \<^verbatim>\<open>Z\<close> move to \<^verbatim>\<open>a\<close> to \<^verbatim>\<open>z\<close>, every other character of ASCII stays.
\<close>

definition lower_char :: "char \<Rightarrow> char" where
  "lower_char c =
     (if 65 \<le> (of_char c :: nat) \<and> (of_char c :: nat) \<le> 90
      then char_of (of_char c + 32 :: nat) else c)"

definition lower :: "string \<Rightarrow> string" where
  "lower s = map lower_char s"

text \<open>
  \<^verbatim>\<open>
  def send_apdu_checksw(self, pdu, sw="9000"):
      rv = self.send_apdu(pdu)
      if not sw_match(rv[1], sw):
          raise SwMatchError(rv[1], sw.lower())
      return rv
  \<close>
  \<^verbatim>\<open>sw_match\<close> comes from \<^verbatim>\<open>pySim.utils\<close>, which is not among the sources: it is a
  parameter here, a predicate on the observed status word and the pattern. The call
  \<^verbatim>\<open>self.send_apdu(pdu)\<close> leaves \<^verbatim>\<open>retry_attempts\<close> at its default, 0.
\<close>

definition send_apdu_checksw ::
  "'s raw_channel \<Rightarrow> (string option \<Rightarrow> string \<Rightarrow> bool) \<Rightarrow> string \<Rightarrow> string \<Rightarrow> 's link
     \<Rightarrow> (exn + resp) \<times> 's link" where
  "send_apdu_checksw raw sw_match pdu sw w =
     (case send_apdu raw pdu 0 w of
        (Inl e, w1) \<Rightarrow> (Inl e, w1)
      | (Inr rv, w1) \<Rightarrow>
          if \<not> sw_match (snd rv) sw then (Inl (SwMatchError (snd rv) (lower sw)), w1)
          else (Inr rv, w1))"

text \<open>
  Modelled from the spec: the matcher of \<^verbatim>\<open>pySim.utils\<close> is missing, and the spec
  describes it as a comparison digit by digit that ignores the case of the letters,
  where a wildcard digit of the pattern (the \<^verbatim>\<open>?\<close> of the docstring of
  \<^verbatim>\<open>send_apdu_checksw\<close>) matches any digit, and that is false when the lengths differ.
  It serves as the instance of \<^verbatim>\<open>sw_match\<close> in the examples below; there, a status word
  that is \<^verbatim>\<open>None\<close> matches nothing.
\<close>

definition sw_digit_matches :: "char \<Rightarrow> char \<Rightarrow> bool" where
  "sw_digit_matches observed pattern =
     (pattern = CHR ''?'' \<or> lower_char observed = lower_char pattern)"

definition sw_match_spec :: "string option \<Rightarrow> string \<Rightarrow> bool" where
  "sw_match_spec observed pattern =
     (case observed of
        None \<Rightarrow> False
      | Some s \<Rightarrow> length s = length pattern \<and> list_all2 sw_digit_matches s pattern)"

section \<open>LinkBase.send_apdu_raw and PcscSimLink._send_apdu_raw\<close>

text \<open>
  \<^verbatim>\<open>
  class LinkBase(object):
      def send_apdu_raw(self, pdu):
          self.send_apdu_raw(pdu)
  \<close>
  The body of \<^verbatim>\<open>LinkBase.send_apdu_raw\<close> is a call of \<^verbatim>\<open>self.send_apdu_raw\<close> whose
  value is dropped; the method has no \<^verbatim>\<open>return\<close>, so a call that came back would
  give \<^verbatim>\<open>None\<close> (the \<open>Inr None\<close> below) instead of a pair. \<^verbatim>\<open>PcscSimLink\<close> defines
  \<^verbatim>\<open>_send_apdu_raw\<close> and no \<^verbatim>\<open>send_apdu_raw\<close>, so on an instance of \<^verbatim>\<open>PcscSimLink\<close> the name
  \<^verbatim>\<open>self.send_apdu_raw\<close> is this same method of \<^verbatim>\<open>LinkBase\<close>. A call that never returns
  has the value \<open>None\<close> of the option type.
\<close>

partial_function (option) LinkBase_send_apdu_raw ::
  "string \<Rightarrow> 's \<Rightarrow> ((exn + resp option) \<times> 's) option" where
  "LinkBase_send_apdu_raw pdu c =
     Option.bind (LinkBase_send_apdu_raw pdu c)
       (\<lambda>rc. case fst rc of
                Inl e \<Rightarrow> Some (Inl e, snd rc)
              | Inr _ \<Rightarrow> Some (Inr None, snd rc))"

text \<open>
  \<^verbatim>\<open>
  def _send_apdu_raw(self, pdu):
      apdu = h2i(pdu)
      data, sw1, sw2 = self._con.transmit(apdu)
      sw = [sw1, sw2]
      return i2h(data), i2h(sw)
  \<close>
  \<^verbatim>\<open>h2i\<close> and \<^verbatim>\<open>i2h\<close> (of \<^verbatim>\<open>pySim.utils\<close>) and the \<^verbatim>\<open>transmit\<close> of the connection of
  pyscard are not among the sources: they are parameters. \<^verbatim>\<open>h2i\<close> may raise on a string
  that is not hexadecimal, \<^verbatim>\<open>transmit\<close> may raise and changes the state of the connection.
\<close>

definition PcscSimLink_private_send_apdu_raw ::
  "(string \<Rightarrow> exn + int list) \<Rightarrow> (int list \<Rightarrow> string) \<Rightarrow>
   (int list \<Rightarrow> 'c \<Rightarrow> (exn + (int list \<times> int \<times> int)) \<times> 'c) \<Rightarrow> 'c raw_channel" where
  "PcscSimLink_private_send_apdu_raw h2i i2h transmit pdu c =
     (case h2i pdu of
        Inl e \<Rightarrow> (Inl e, c)
      | Inr apdu \<Rightarrow>
          (case transmit apdu c of
             (Inl e, c') \<Rightarrow> (Inl e, c')
           | (Inr (data, sw1, sw2), c') \<Rightarrow>
               (let sw = [sw1, sw2] in (Inr (i2h data, Some (i2h sw)), c'))))"

section \<open>Observing the raw channel\<close>

text \<open>
  To count the raw transmissions and to see their arguments, a channel is wrapped so
  that it appends every pdu it is called with to a trace kept beside its state.
\<close>

definition traced :: "'s raw_channel \<Rightarrow> (string list \<times> 's) raw_channel" where
  "traced raw pdu ts =
     (case raw pdu (snd ts) of (r, c) \<Rightarrow> (r, (fst ts @ [pdu], c)))"

definition trace_of :: "(string list \<times> 's) link \<Rightarrow> string list" where
  "trace_of w = fst (chan w)"

text \<open>
  A test channel that plays a script: each call consumes the next outcome of the list,
  whatever the pdu; a call after the end of the script raises.
\<close>

fun scripted :: "((exn + resp) list) raw_channel" where
  "scripted pdu [] = (Inl (OtherException ''end of script''), [])"
| "scripted pdu (x # xs) = (x, xs)"

text \<open>
  A raw channel, in state \<open>c\<close>, fails on its first \<open>k\<close> calls with \<open>pdu\<close> and succeeds on
  the next one. A failure is an exception that \<^verbatim>\<open>except Exception\<close> catches.
\<close>

fun fails_then_succeeds :: "'s raw_channel \<Rightarrow> string \<Rightarrow> nat \<Rightarrow> 's \<Rightarrow> bool" where
  "fails_then_succeeds raw pdu 0 c =
     (case fst (raw pdu c) of Inl e \<Rightarrow> False | Inr r \<Rightarrow> True)"
| "fails_then_succeeds raw pdu (Suc k) c =
     (case fst (raw pdu c) of
        Inl e \<Rightarrow> isinstance_Exception e \<and> fails_then_succeeds raw pdu k (snd (raw pdu c))
      | Inr r \<Rightarrow> False)"

section \<open>Properties\<close>

lemma send_apdu_failsafe_ok:
  "raw pdu (chan w) = (Inr r, c) \<Longrightarrow>
   send_apdu_failsafe raw pdu N w = (Inr r, w\<lparr>chan := c\<rparr>)"
  by (cases r) (simp add: send_apdu_failsafe.simps)

subsection \<open>Unfolding one call of the failsafe send\<close>

lemma send_apdu_failsafe_retry:
  "raw pdu (chan w) = (Inl e, c) \<Longrightarrow> isinstance_Exception e \<Longrightarrow> 0 < N \<Longrightarrow>
   send_apdu_failsafe raw pdu N w =
     send_apdu_failsafe raw pdu (N - 1) (logging_info (retry_message pdu) (w\<lparr>chan := c\<rparr>))"
  by (subst send_apdu_failsafe.simps) simp

lemma send_apdu_failsafe_raise:
  "raw pdu (chan w) = (Inl e, c) \<Longrightarrow> \<not> isinstance_Exception e \<or> N \<le> 0 \<Longrightarrow>
   send_apdu_failsafe raw pdu N w = (Inl e, w\<lparr>chan := c\<rparr>)"
  by (subst send_apdu_failsafe.simps) auto

lemma traced_eq:
  "traced raw pdu (tr, c) = (fst (raw pdu c), (tr @ [pdu], snd (raw pdu c)))"
  by (simp add: traced_def split: prod.splits)

lemma trace_of_simps [simp]:
  "trace_of (w\<lparr>chan := (tr, c)\<rparr>) = tr"
  "trace_of (logging_info msg w) = trace_of w"
  "trace_of \<lparr>chan = (tr, c), log_records = l\<rparr> = tr"
  by (simp_all add: trace_of_def logging_info_def)

lemma chan_logging_info [simp]: "chan (logging_info msg w) = chan w"
  by (simp add: logging_info_def)

lemma send_apdu_failsafe_trace:
  "\<exists>m. 1 \<le> m \<and> int m \<le> max N 0 + 1 \<and>
       trace_of (snd (send_apdu_failsafe (traced raw) pdu N w)) = trace_of w @ replicate m pdu"
proof (induction "traced raw" pdu N w rule: send_apdu_failsafe.induct)
  case (1 pdu N w)
  obtain tr c where cw: "chan w = (tr, c)" by (cases "chan w")
  obtain r c' where rc: "raw pdu c = (r, c')" by (cases "raw pdu c")
  have t: "traced raw pdu (chan w) = (r, (tr @ [pdu], c'))"
    by (simp add: cw traced_eq rc)
  have tw: "trace_of w = tr" by (simp add: trace_of_def cw)
  show ?case
  proof (cases r)
    case (Inr res)
    have "send_apdu_failsafe (traced raw) pdu N w = (Inr res, w\<lparr>chan := (tr @ [pdu], c')\<rparr>)"
      using t Inr by (simp add: send_apdu_failsafe_ok)
    then have "trace_of (snd (send_apdu_failsafe (traced raw) pdu N w)) = trace_of w @ replicate 1 pdu"
      by (simp add: tw)
    then show ?thesis by (intro exI[of _ 1]) simp
  next
    case (Inl e)
    show ?thesis
    proof (cases "isinstance_Exception e \<and> 0 < N")
      case True
      let ?w' = "logging_info (retry_message pdu) (w\<lparr>chan := (tr @ [pdu], c')\<rparr>)"
      from "1"[OF t[symmetric] Inl] True
      obtain m where m: "1 \<le> m" "int m \<le> max (N - 1) 0 + 1"
        "trace_of (snd (send_apdu_failsafe (traced raw) pdu (N - 1) ?w')) = trace_of ?w' @ replicate m pdu"
        by blast
      have eq: "send_apdu_failsafe (traced raw) pdu N w = send_apdu_failsafe (traced raw) pdu (N - 1) ?w'"
        using t Inl True by (simp add: send_apdu_failsafe_retry)
      have "trace_of (snd (send_apdu_failsafe (traced raw) pdu N w)) = trace_of w @ replicate (Suc m) pdu"
        by (simp add: eq m(3) tw replicate_append_same)
      moreover have "int (Suc m) \<le> max N 0 + 1" using m(2) True by simp
      ultimately show ?thesis by (intro exI[of _ "Suc m"]) simp
    next
      case False
      have "send_apdu_failsafe (traced raw) pdu N w = (Inl e, w\<lparr>chan := (tr @ [pdu], c')\<rparr>)"
        using t Inl False by (intro send_apdu_failsafe_raise) auto
      then have "trace_of (snd (send_apdu_failsafe (traced raw) pdu N w)) = trace_of w @ replicate 1 pdu"
        by (simp add: tw)
      then show ?thesis by (intro exI[of _ 1]) simp
    qed
  qed
qed

lemma send_apdu_chain:
  assumes "send_apdu_failsafe raw pdu N w = (Inr (data, Some sw), w1)"
    and "take 2 sw = ''9f'' \<or> take 2 sw = ''61''"
  shows "send_apdu raw pdu N w =
           send_apdu_failsafe raw (take 2 pdu @ ''c00000'' @ take 2 (drop 2 sw)) N w1"
  using assms unfolding send_apdu_def Let_def by auto

lemma send_apdu_pass:
  assumes "send_apdu_failsafe raw pdu N w = (Inr (data, Some sw), w1)"
    and "\<not> (take 2 sw = ''9f'' \<or> take 2 sw = ''61'')"
  shows "send_apdu raw pdu N w = (Inr (data, Some sw), w1)"
  using assms unfolding send_apdu_def by auto

subsection \<open>The failsafe send on a bounded stack\<close>

lemma send_apdu_failsafe_frames_ok:
  "raw pdu (chan w) = (Inr r, c) \<Longrightarrow>
   send_apdu_failsafe_frames d raw pdu N w = (Inr r, w\<lparr>chan := c\<rparr>)"
  by (cases r) (simp add: send_apdu_failsafe_frames.simps)

lemma send_apdu_failsafe_frames_retry:
  "raw pdu (chan w) = (Inl e, c) \<Longrightarrow> isinstance_Exception e \<Longrightarrow> 0 < N \<Longrightarrow>
   send_apdu_failsafe_frames (Suc d) raw pdu N w =
     send_apdu_failsafe_frames d raw pdu (N - 1)
       (logging_info (retry_message pdu) (w\<lparr>chan := c\<rparr>))"
  by (subst send_apdu_failsafe_frames.simps) simp

lemma send_apdu_failsafe_frames_overflow:
  "raw pdu (chan w) = (Inl e, c) \<Longrightarrow> isinstance_Exception e \<Longrightarrow> 0 < N \<Longrightarrow>
   send_apdu_failsafe_frames 0 raw pdu N w =
     (Inl RecursionError, logging_info (retry_message pdu) (w\<lparr>chan := c\<rparr>))"
  by (subst send_apdu_failsafe_frames.simps) simp

lemma send_apdu_failsafe_frames_raise:
  "raw pdu (chan w) = (Inl e, c) \<Longrightarrow> \<not> isinstance_Exception e \<or> N \<le> 0 \<Longrightarrow>
   send_apdu_failsafe_frames d raw pdu N w = (Inl e, w\<lparr>chan := c\<rparr>)"
  by (subst send_apdu_failsafe_frames.simps) auto

text \<open>
  When the budget fits the frames that are left, the bounded stack is never exhausted and
  the method behaves as on the unbounded one.
\<close>

lemma send_apdu_failsafe_frames_enough:
  "N \<le> int d \<Longrightarrow> send_apdu_failsafe_frames d raw pdu N w = send_apdu_failsafe raw pdu N w"
proof (induction d arbitrary: N w)
  case 0
  obtain r c where rc: "raw pdu (chan w) = (r, c)" by (cases "raw pdu (chan w)")
  show ?case
  proof (cases r)
    case (Inl e)
    with rc 0 show ?thesis
      by (simp add: send_apdu_failsafe_frames_raise send_apdu_failsafe_raise)
  next
    case (Inr res)
    with rc show ?thesis
      by (simp add: send_apdu_failsafe_frames_ok send_apdu_failsafe_ok)
  qed
next
  case (Suc d)
  obtain r c where rc: "raw pdu (chan w) = (r, c)" by (cases "raw pdu (chan w)")
  show ?case
  proof (cases r)
    case (Inl e)
    show ?thesis
    proof (cases "isinstance_Exception e \<and> 0 < N")
      case True
      with Suc.prems have "N - 1 \<le> int d" by simp
      from Suc.IH[OF this] rc Inl True show ?thesis
        by (simp add: send_apdu_failsafe_frames_retry send_apdu_failsafe_retry)
    next
      case False
      with rc Inl show ?thesis
        by (auto simp: send_apdu_failsafe_frames_raise send_apdu_failsafe_raise)
    qed
  next
    case (Inr res)
    with rc show ?thesis
      by (simp add: send_apdu_failsafe_frames_ok send_apdu_failsafe_ok)
  qed
qed

text \<open>
  On a channel that fails \<open>k\<close> times and then succeeds: the outcome and the raw calls, both
  when the \<open>min k N\<close> nested retries fit the stack and when they do not.
\<close>

lemma send_apdu_failsafe_frames_fails_then_succeeds:
  "fails_then_succeeds raw pdu k (snd (chan w)) \<Longrightarrow> 0 \<le> N \<Longrightarrow>
   (min k (nat N) \<le> d \<longrightarrow>
      (\<not> isl (fst (send_apdu_failsafe_frames d (traced raw) pdu N w)) \<longleftrightarrow> k \<le> nat N)
      \<and> trace_of (snd (send_apdu_failsafe_frames d (traced raw) pdu N w))
          = trace_of w @ replicate (min k (nat N) + 1) pdu)
   \<and> (d < min k (nat N) \<longrightarrow>
      fst (send_apdu_failsafe_frames d (traced raw) pdu N w) = Inl RecursionError
      \<and> trace_of (snd (send_apdu_failsafe_frames d (traced raw) pdu N w))
          = trace_of w @ replicate (d + 1) pdu)"
proof (induction k arbitrary: d N w)
  case 0
  obtain tr c where cw: "chan w = (tr, c)" by (cases "chan w")
  from 0 obtain r c' where rc: "raw pdu c = (Inr r, c')"
    by (cases "raw pdu c") (auto simp: cw split: sum.splits)
  have "send_apdu_failsafe_frames d (traced raw) pdu N w
          = (Inr r, w\<lparr>chan := (tr @ [pdu], c')\<rparr>)"
    by (rule send_apdu_failsafe_frames_ok) (simp add: cw traced_eq rc)
  then show ?case by (simp add: trace_of_def cw)
next
  case (Suc k)
  obtain tr c where cw: "chan w = (tr, c)" by (cases "chan w")
  from Suc.prems(1) obtain e c' where rc: "raw pdu c = (Inl e, c')"
    and e: "isinstance_Exception e" and rest: "fails_then_succeeds raw pdu k c'"
    by (cases "raw pdu c") (auto simp: cw split: sum.splits)
  have t: "traced raw pdu (chan w) = (Inl e, (tr @ [pdu], c'))"
    by (simp add: cw traced_eq rc)
  have tw: "trace_of w = tr" by (simp add: trace_of_def cw)
  let ?w' = "logging_info (retry_message pdu) (w\<lparr>chan := (tr @ [pdu], c')\<rparr>)"
  show ?case
  proof (cases "0 < N")
    case False
    with Suc.prems have N0: "N = 0" by simp
    have "send_apdu_failsafe_frames d (traced raw) pdu N w
            = (Inl e, w\<lparr>chan := (tr @ [pdu], c')\<rparr>)"
      using t N0 by (intro send_apdu_failsafe_frames_raise) auto
    then show ?thesis by (simp add: N0 tw)
  next
    case True
    then have n: "nat N = Suc (nat (N - 1))" by simp
    show ?thesis
    proof (cases d)
      case 0
      have "send_apdu_failsafe_frames d (traced raw) pdu N w = (Inl RecursionError, ?w')"
        unfolding 0 using t e True by (rule send_apdu_failsafe_frames_overflow)
      then show ?thesis by (simp add: 0 n tw)
    next
      case (Suc d')
      have eq: "send_apdu_failsafe_frames (Suc d') (traced raw) pdu N w
                  = send_apdu_failsafe_frames d' (traced raw) pdu (N - 1) ?w'"
        using t e True by (rule send_apdu_failsafe_frames_retry)
      have "fails_then_succeeds raw pdu k (snd (chan ?w'))" using rest by simp
      from Suc.IH[OF this, of "N - 1" d'] True
      show ?thesis
        unfolding Suc eq n by (simp add: replicate_append_same tw)
    qed
  qed
qed

lemma scripted_fails_then_succeeds:
  "isinstance_Exception e \<Longrightarrow>
   fails_then_succeeds scripted pdu k (replicate k (Inl e) @ Inr r # rest)"
  by (induction k) simp_all

lemmas run_frames_simps = send_apdu_failsafe_frames_ok send_apdu_failsafe_frames_retry
  send_apdu_failsafe_frames_overflow send_apdu_failsafe_frames_raise traced_eq logging_info_def

lemma LinkBase_send_apdu_raw_never_returns_aux:
  "LinkBase_send_apdu_raw pdu c = Some y \<Longrightarrow> False"
  by (rule LinkBase_send_apdu_raw.raw_induct[where P = "\<lambda>_ _ _. False"])
     (auto split: Option.bind_splits sum.splits)

lemma send_apdu_trace_bound:
  "length (trace_of (snd (send_apdu (traced raw) pdu N w)))
     \<le> length (trace_of w) + 2 * nat (max N 0 + 1)"
proof -
  obtain r w1 where first: "send_apdu_failsafe (traced raw) pdu N w = (r, w1)"
    by (cases "send_apdu_failsafe (traced raw) pdu N w")
  from send_apdu_failsafe_trace[of N raw pdu w] first
  obtain m1 where m1: "int m1 \<le> max N 0 + 1" "trace_of w1 = trace_of w @ replicate m1 pdu"
    by auto
  have l1: "length (trace_of w1) \<le> length (trace_of w) + nat (max N 0 + 1)"
    using m1 by simp
  show ?thesis
  proof (cases "\<exists>data sw. r = Inr (data, Some sw) \<and> (take 2 sw = ''9f'' \<or> take 2 sw = ''61'')")
    case True
    then obtain data sw where r: "r = Inr (data, Some sw)"
      and ch: "take 2 sw = ''9f'' \<or> take 2 sw = ''61''" by blast
    let ?cmd = "take 2 pdu @ ''c00000'' @ take 2 (drop 2 sw)"
    have eq: "send_apdu (traced raw) pdu N w = send_apdu_failsafe (traced raw) ?cmd N w1"
      using first r ch by (intro send_apdu_chain) auto
    from send_apdu_failsafe_trace[of N raw ?cmd w1]
    obtain m2 where m2: "int m2 \<le> max N 0 + 1"
      "trace_of (snd (send_apdu_failsafe (traced raw) ?cmd N w1)) = trace_of w1 @ replicate m2 ?cmd"
      by auto
    have "length (trace_of (snd (send_apdu (traced raw) pdu N w))) = length (trace_of w1) + m2"
      unfolding eq m2(2) by simp
    with l1 m2(1) show ?thesis by simp
  next
    case False
    have "send_apdu (traced raw) pdu N w = (r, w1)"
      using first False unfolding send_apdu_def
      by (auto split: sum.splits option.splits prod.splits)
    with l1 show ?thesis by simp
  qed
qed

text \<open>
  What the private method of \<^verbatim>\<open>PcscSimLink\<close> does when the pdu decodes and the card
  answers: it returns the data and the two status bytes of \<^verbatim>\<open>transmit\<close>, both as hex.
\<close>

lemma PcscSimLink_private_send_apdu_raw_transmit:
  "h2i pdu = Inr apdu \<Longrightarrow> transmit apdu c = (Inr (data, sw1, sw2), c') \<Longrightarrow>
   PcscSimLink_private_send_apdu_raw h2i i2h transmit pdu c
     = (Inr (i2h data, Some (i2h [sw1, sw2])), c')"
  by (simp add: PcscSimLink_private_send_apdu_raw_def)

text \<open>The rules that run a send on a concrete channel.\<close>

lemmas run_simps = send_apdu_failsafe_ok send_apdu_failsafe_retry send_apdu_failsafe_raise
  traced_eq logging_info_def

text \<open>Values of \<^const>\<open>lower\<close> and of the matcher of the spec used in the examples.\<close>

lemma lower_examples:
  "lower ''9000'' = ''9000''" "lower ''6A8?'' = ''6a8?''"
  by code_simp+

lemma sw_match_spec_examples:
  "sw_match_spec (Some ''9000'') ''9000''"
  "\<not> sw_match_spec (Some ''6A82'') ''9000''"
  "\<not> sw_match_spec (Some ''9000'') ''6A8?''"
  by code_simp+

subsection \<open>The claims\<close>

text \<open>
  C7. When the first response carries a status word that is not \<^verbatim>\<open>None\<close> and starts
  with neither \<^verbatim>\<open>9f\<close> nor \<^verbatim>\<open>61\<close>, \<^verbatim>\<open>send_apdu\<close> returns that response as it came, and the
  link is in the state the first send left it in: nothing more is transmitted.
\<close>

theorem send_apdu_no_chaining:
  assumes "send_apdu_failsafe raw pdu N w = (Inr (data, Some sw), w1)"
    and "take 2 sw \<noteq> ''9f''" and "take 2 sw \<noteq> ''61''"
  shows "send_apdu raw pdu N w = (Inr (data, Some sw), w1)"
  using assms by (simp add: send_apdu_def)

theorem send_apdu_no_chaining_witness:
  "send_apdu_failsafe (traced scripted) ''A0A40000023F00'' 0
      \<lparr>chan = ([], [Inr (''0011'', Some ''9000'')]), log_records = []\<rparr>
     = (Inr (''0011'', Some ''9000''),
        \<lparr>chan = ([''A0A40000023F00''], []), log_records = []\<rparr>)
   \<and> take 2 ''9000'' \<noteq> ''9f'' \<and> take 2 ''9000'' \<noteq> ''61''
   \<and> send_apdu (traced scripted) ''A0A40000023F00'' 0
        \<lparr>chan = ([], [Inr (''0011'', Some ''9000'')]), log_records = []\<rparr>
     = (Inr (''0011'', Some ''9000''),
        \<lparr>chan = ([''A0A40000023F00''], []), log_records = []\<rparr>)"
proof -
  have first: "send_apdu_failsafe (traced scripted) ''A0A40000023F00'' 0
      \<lparr>chan = ([], [Inr (''0011'', Some ''9000'')]), log_records = []\<rparr>
     = (Inr (''0011'', Some ''9000''),
        \<lparr>chan = ([''A0A40000023F00''], []), log_records = []\<rparr>)"
    by (simp add: send_apdu_failsafe_ok traced_eq)
  have a: "take 2 ''9000'' \<noteq> ''9f''" and b: "take 2 ''9000'' \<noteq> ''61''" by simp_all
  from send_apdu_no_chaining[OF first a b] first a b show ?thesis by simp
qed

text \<open>
  C1. \<^verbatim>\<open>send_apdu_raw\<close> on a \<^verbatim>\<open>PcscSimLink\<close> is \<^verbatim>\<open>LinkBase.send_apdu_raw\<close>, which calls
  itself with the same pdu before anything else: for no pdu and no state of the
  connection does the call return, so it never reaches \<^verbatim>\<open>_send_apdu_raw\<close> and the
  \<^verbatim>\<open>transmit\<close> of the connection. (CPython ends the descent with a \<^verbatim>\<open>RecursionError\<close>.)
\<close>

theorem LinkBase_send_apdu_raw_never_returns:
  "LinkBase_send_apdu_raw pdu c = None"
proof (cases "LinkBase_send_apdu_raw pdu c")
  case None
  then show ?thesis .
next
  case (Some y)
  from LinkBase_send_apdu_raw_never_returns_aux[OF Some] show ?thesis by simp
qed

text \<open>
  C2. The claim that an absence fault is surfaced at once when the budget is positive
  fails: with budget 1, a channel that raises \<^verbatim>\<open>NoCardError\<close> once and answers the second
  call makes \<^verbatim>\<open>send_apdu_failsafe\<close> transmit twice and return the answer.
\<close>

theorem send_apdu_failsafe_absence_fault_counterexample:
  "traced scripted ''A0A40000023F00'' ([], [Inl NoCardError, Inr (''0011'', Some ''9000'')])
     = (Inl NoCardError, ([''A0A40000023F00''], [Inr (''0011'', Some ''9000'')]))
   \<and> send_apdu_failsafe (traced scripted) ''A0A40000023F00'' 1
        \<lparr>chan = ([], [Inl NoCardError, Inr (''0011'', Some ''9000'')]), log_records = []\<rparr>
       \<noteq> (Inl NoCardError,
          \<lparr>chan = ([''A0A40000023F00''], [Inr (''0011'', Some ''9000'')]), log_records = []\<rparr>)
   \<and> send_apdu_failsafe (traced scripted) ''A0A40000023F00'' 1
        \<lparr>chan = ([], [Inl NoCardError, Inr (''0011'', Some ''9000'')]), log_records = []\<rparr>
       = (Inr (''0011'', Some ''9000''),
          \<lparr>chan = ([''A0A40000023F00'', ''A0A40000023F00''], []),
           log_records = [retry_message ''A0A40000023F00'']\<rparr>)"
  by (simp add: send_apdu_failsafe_ok send_apdu_failsafe_retry traced_eq logging_info_def)

text \<open>
  C2, as amended. When the raw transmission raises \<^verbatim>\<open>NoCardError\<close> or \<^verbatim>\<open>ReaderError\<close> and
  the budget is positive, \<^verbatim>\<open>send_apdu_failsafe\<close> logs the retry and sends the same pdu again
  with the budget less one, as for every other \<^verbatim>\<open>Exception\<close>; the fault reaches the caller
  without a retry only when the budget is 0 or less.
\<close>

theorem send_apdu_failsafe_absence_fault_retried:
  assumes "raw pdu (chan w) = (Inl e, c)" and "e = NoCardError \<or> e = ReaderError"
  shows "(0 < N \<longrightarrow>
            send_apdu_failsafe raw pdu N w =
              send_apdu_failsafe raw pdu (N - 1)
                (logging_info (retry_message pdu) (w\<lparr>chan := c\<rparr>)))
       \<and> (N \<le> 0 \<longrightarrow> send_apdu_failsafe raw pdu N w = (Inl e, w\<lparr>chan := c\<rparr>))"
proof -
  have e: "isinstance_Exception e" using assms(2) by auto
  show ?thesis
    using assms(1) e by (simp add: send_apdu_failsafe_retry send_apdu_failsafe_raise)
qed

theorem send_apdu_failsafe_absence_fault_retried_witness:
  "scripted ''A0A40000023F00''
      (chan \<lparr>chan = [Inl ReaderError, Inl ReaderError], log_records = []\<rparr>)
     = (Inl ReaderError, [Inl ReaderError])
   \<and> (ReaderError = NoCardError \<or> ReaderError = ReaderError)
   \<and> send_apdu_failsafe scripted ''A0A40000023F00'' 1
        \<lparr>chan = [Inl ReaderError, Inl ReaderError], log_records = []\<rparr>
     = send_apdu_failsafe scripted ''A0A40000023F00'' 0
        \<lparr>chan = [Inl ReaderError], log_records = [retry_message ''A0A40000023F00'']\<rparr>
   \<and> send_apdu_failsafe scripted ''A0A40000023F00'' 0
        \<lparr>chan = [Inl ReaderError, Inl ReaderError], log_records = []\<rparr>
     = (Inl ReaderError, \<lparr>chan = [Inl ReaderError], log_records = []\<rparr>)"
proof -
  have h: "scripted ''A0A40000023F00''
      (chan \<lparr>chan = [Inl ReaderError, Inl ReaderError], log_records = []\<rparr>)
     = (Inl ReaderError, [Inl ReaderError])" by simp
  have k: "ReaderError = NoCardError \<or> ReaderError = ReaderError" by simp
  from send_apdu_failsafe_absence_fault_retried
         [where raw = scripted and e = ReaderError and N = 1, OF h k]
       send_apdu_failsafe_absence_fault_retried
         [where raw = scripted and e = ReaderError and N = 0, OF h k] h
  show ?thesis by (simp add: logging_info_def)
qed

text \<open>
  C4. The claim fails for budgets that the stack of the interpreter does not hold, since
  every retry is a nested call. With \<open>k = N = 1000\<close> the claim promises success after 1001
  raw calls; with room for 988 nested calls (what the default recursion limit of 1000
  leaves when a dozen frames are in use) the send ends in \<^verbatim>\<open>RecursionError\<close> after 989.
\<close>

theorem send_apdu_failsafe_retry_budget_counterexample:
  "(0::int) \<le> 1000 \<and> (1000::nat) \<le> nat 1000
   \<and> fails_then_succeeds scripted ''A0A40000023F00'' 1000
        (replicate 1000 (Inl ProtocolError) @ [Inr (''0011'', Some ''9000'')])
   \<and> fst (send_apdu_failsafe_frames 988 (traced scripted) ''A0A40000023F00'' 1000
        \<lparr>chan = ([], replicate 1000 (Inl ProtocolError) @ [Inr (''0011'', Some ''9000'')]),
         log_records = []\<rparr>) = Inl RecursionError
   \<and> trace_of (snd (send_apdu_failsafe_frames 988 (traced scripted) ''A0A40000023F00'' 1000
        \<lparr>chan = ([], replicate 1000 (Inl ProtocolError) @ [Inr (''0011'', Some ''9000'')]),
         log_records = []\<rparr>)) = replicate 989 ''A0A40000023F00''"
proof -
  have f: "fails_then_succeeds scripted ''A0A40000023F00'' 1000
        (replicate 1000 (Inl ProtocolError) @ [Inr (''0011'', Some ''9000'')])"
    by (rule scripted_fails_then_succeeds) simp
  have f': "fails_then_succeeds scripted ''A0A40000023F00'' 1000
        (snd (chan \<lparr>chan = ([], replicate 1000 (Inl ProtocolError) @ [Inr (''0011'', Some ''9000'')]),
         log_records = []\<rparr>))"
    using f by simp
  have n: "(0::int) \<le> 1000" by simp
  have lt: "(988::nat) < min 1000 (nat 1000)" by simp
  from send_apdu_failsafe_frames_fails_then_succeeds[OF f' n, of 988, THEN conjunct2, rule_format, OF lt]
  have "fst (send_apdu_failsafe_frames 988 (traced scripted) ''A0A40000023F00'' 1000
        \<lparr>chan = ([], replicate 1000 (Inl ProtocolError) @ [Inr (''0011'', Some ''9000'')]),
         log_records = []\<rparr>) = Inl RecursionError"
    and "trace_of (snd (send_apdu_failsafe_frames 988 (traced scripted) ''A0A40000023F00'' 1000
        \<lparr>chan = ([], replicate 1000 (Inl ProtocolError) @ [Inr (''0011'', Some ''9000'')]),
         log_records = []\<rparr>)) = replicate 989 ''A0A40000023F00''"
    by simp_all
  with f show ?thesis by simp
qed

text \<open>
  C4, as amended. On a raw channel that fails on its first \<open>k\<close> calls and then succeeds,
  with a budget \<open>N \<ge> 0\<close>: when the \<open>min k N\<close> nested retries fit the recursion limit of the
  interpreter, \<^verbatim>\<open>send_apdu_failsafe\<close> succeeds exactly when \<open>k \<le> N\<close>, and the raw channel is
  called \<open>min k N + 1\<close> times, each time with the same pdu (\<open>k + 1\<close> calls when it succeeds,
  \<open>N + 1\<close> calls before the failure is surfaced when \<open>k > N\<close>); when they do not fit, it
  raises \<^verbatim>\<open>RecursionError\<close> after one raw call for each call of the method that fitted.
\<close>

theorem send_apdu_failsafe_retry_budget:
  assumes "fails_then_succeeds raw pdu k (snd (chan w))" and "0 \<le> N"
  shows "(min k (nat N) \<le> frames \<longrightarrow>
      (\<not> isl (fst (send_apdu_failsafe_frames frames (traced raw) pdu N w)) \<longleftrightarrow> k \<le> nat N)
      \<and> trace_of (snd (send_apdu_failsafe_frames frames (traced raw) pdu N w))
          = trace_of w @ replicate (min k (nat N) + 1) pdu)
   \<and> (frames < min k (nat N) \<longrightarrow>
      fst (send_apdu_failsafe_frames frames (traced raw) pdu N w) = Inl RecursionError
      \<and> trace_of (snd (send_apdu_failsafe_frames frames (traced raw) pdu N w))
          = trace_of w @ replicate (frames + 1) pdu)"
  using assms by (rule send_apdu_failsafe_frames_fails_then_succeeds)

theorem send_apdu_failsafe_retry_budget_witness:
  "fails_then_succeeds scripted ''A0A40000023F00'' 2
     (snd (chan \<lparr>chan = ([], [Inl ProtocolError, Inl NoCardError, Inr (''0011'', Some ''9000'')]),
                 log_records = []\<rparr>))
   \<and> (0::int) \<le> 3 \<and> min 2 (nat 3) \<le> (5::nat)
   \<and> \<not> isl (fst (send_apdu_failsafe_frames 5 (traced scripted) ''A0A40000023F00'' 3
          \<lparr>chan = ([], [Inl ProtocolError, Inl NoCardError, Inr (''0011'', Some ''9000'')]),
           log_records = []\<rparr>))
   \<and> trace_of (snd (send_apdu_failsafe_frames 5 (traced scripted) ''A0A40000023F00'' 3
          \<lparr>chan = ([], [Inl ProtocolError, Inl NoCardError, Inr (''0011'', Some ''9000'')]),
           log_records = []\<rparr>))
       = [''A0A40000023F00'', ''A0A40000023F00'', ''A0A40000023F00'']
   \<and> (0::int) \<le> 1 \<and> min 2 (nat 1) \<le> (5::nat)
   \<and> isl (fst (send_apdu_failsafe_frames 5 (traced scripted) ''A0A40000023F00'' 1
          \<lparr>chan = ([], [Inl ProtocolError, Inl NoCardError, Inr (''0011'', Some ''9000'')]),
           log_records = []\<rparr>))
   \<and> trace_of (snd (send_apdu_failsafe_frames 5 (traced scripted) ''A0A40000023F00'' 1
          \<lparr>chan = ([], [Inl ProtocolError, Inl NoCardError, Inr (''0011'', Some ''9000'')]),
           log_records = []\<rparr>))
       = [''A0A40000023F00'', ''A0A40000023F00'']
   \<and> (1::nat) < min 2 (nat 3)
   \<and> fst (send_apdu_failsafe_frames 1 (traced scripted) ''A0A40000023F00'' 3
          \<lparr>chan = ([], [Inl ProtocolError, Inl NoCardError, Inr (''0011'', Some ''9000'')]),
           log_records = []\<rparr>) = Inl RecursionError
   \<and> trace_of (snd (send_apdu_failsafe_frames 1 (traced scripted) ''A0A40000023F00'' 3
          \<lparr>chan = ([], [Inl ProtocolError, Inl NoCardError, Inr (''0011'', Some ''9000'')]),
           log_records = []\<rparr>))
       = [''A0A40000023F00'', ''A0A40000023F00'']"
proof -
  have h: "fails_then_succeeds scripted ''A0A40000023F00'' 2
     (snd (chan \<lparr>chan = ([], [Inl ProtocolError, Inl NoCardError, Inr (''0011'', Some ''9000'')]),
                 log_records = []\<rparr>))"
    by (simp add: numeral_2_eq_2)
  have n3: "(0::int) \<le> 3" and n1: "(0::int) \<le> 1" by simp_all
  have one: "Suc 0 = 1" by simp
  from send_apdu_failsafe_retry_budget[OF h n3, of 5]
       send_apdu_failsafe_retry_budget[OF h n1, of 5]
       send_apdu_failsafe_retry_budget[OF h n3, of 1] h
  show ?thesis
    by (simp add: run_frames_simps eval_nat_numeral)
qed

text \<open>
  C3. The claim that the continuation command starts with the class and the instruction
  byte of the original pdu fails: for the pdu \<^verbatim>\<open>A0A40000023F00\<close> and the status \<^verbatim>\<open>9f05\<close> the
  command transmitted next is \<^verbatim>\<open>A0c0000005\<close>, whose first two bytes \<^verbatim>\<open>A0c0\<close> are not
  \<^verbatim>\<open>A0A4\<close>.
\<close>

theorem send_apdu_continuation_header_counterexample:
  "send_apdu_failsafe (traced scripted) ''A0A40000023F00'' 0
      \<lparr>chan = ([], [Inr ([], Some ''9f05''), Inr (''0011223344'', Some ''9000'')]),
       log_records = []\<rparr>
     = (Inr ([], Some ''9f05''),
        \<lparr>chan = ([''A0A40000023F00''], [Inr (''0011223344'', Some ''9000'')]),
         log_records = []\<rparr>)
   \<and> trace_of (snd (send_apdu (traced scripted) ''A0A40000023F00'' 0
      \<lparr>chan = ([], [Inr ([], Some ''9f05''), Inr (''0011223344'', Some ''9000'')]),
       log_records = []\<rparr>))
     = [''A0A40000023F00'', ''A0c0000005'']
   \<and> take 4 ''A0c0000005'' \<noteq> take 4 ''A0A40000023F00''"
  by (simp add: send_apdu_def run_simps)

text \<open>
  C3, as amended. When the first response carries a status word that starts with \<^verbatim>\<open>9f\<close>
  or \<^verbatim>\<open>61\<close>, every raw transmission that follows it (there is at least one) carries a
  command that starts with \<^verbatim>\<open>pdu[0:2]\<close>, the class byte of the original pdu, followed by
  the fixed instruction \<^verbatim>\<open>c0\<close>: the instruction byte of the pdu is not copied.
\<close>

theorem send_apdu_continuation_class_byte:
  assumes "send_apdu_failsafe (traced raw) pdu N w = (Inr (data, Some sw), w1)"
    and "take 2 sw = ''9f'' \<or> take 2 sw = ''61''"
  shows "\<exists>m rest. 1 \<le> m \<and>
           trace_of (snd (send_apdu (traced raw) pdu N w))
             = trace_of w1 @ replicate m (take 2 pdu @ ''c0'' @ rest)"
proof -
  let ?cmd = "take 2 pdu @ ''c00000'' @ take 2 (drop 2 sw)"
  have eq: "send_apdu (traced raw) pdu N w = send_apdu_failsafe (traced raw) ?cmd N w1"
    using assms by (rule send_apdu_chain)
  from send_apdu_failsafe_trace[of N raw ?cmd w1]
  obtain m where m: "1 \<le> m"
    "trace_of (snd (send_apdu_failsafe (traced raw) ?cmd N w1)) = trace_of w1 @ replicate m ?cmd"
    by auto
  have "?cmd = take 2 pdu @ ''c0'' @ (''0000'' @ take 2 (drop 2 sw))" by simp
  with m eq show ?thesis by metis
qed

theorem send_apdu_continuation_class_byte_witness:
  "send_apdu_failsafe (traced scripted) ''A0A40000023F00'' 0
      \<lparr>chan = ([], [Inr ([], Some ''6105''), Inr (''0011223344'', Some ''9000'')]),
       log_records = []\<rparr>
     = (Inr ([], Some ''6105''),
        \<lparr>chan = ([''A0A40000023F00''], [Inr (''0011223344'', Some ''9000'')]),
         log_records = []\<rparr>)
   \<and> (take 2 ''6105'' = ''9f'' \<or> take 2 ''6105'' = ''61'')
   \<and> (\<exists>m rest. 1 \<le> m \<and>
        trace_of (snd (send_apdu (traced scripted) ''A0A40000023F00'' 0
          \<lparr>chan = ([], [Inr ([], Some ''6105''), Inr (''0011223344'', Some ''9000'')]),
           log_records = []\<rparr>))
        = trace_of \<lparr>chan = ([''A0A40000023F00''], [Inr (''0011223344'', Some ''9000'')]),
                    log_records = []\<rparr>
          @ replicate m (take 2 ''A0A40000023F00'' @ ''c0'' @ rest))
   \<and> trace_of (snd (send_apdu (traced scripted) ''A0A40000023F00'' 0
          \<lparr>chan = ([], [Inr ([], Some ''6105''), Inr (''0011223344'', Some ''9000'')]),
           log_records = []\<rparr>))
       = [''A0A40000023F00'', ''A0c0000005'']"
proof -
  have first: "send_apdu_failsafe (traced scripted) ''A0A40000023F00'' 0
      \<lparr>chan = ([], [Inr ([], Some ''6105''), Inr (''0011223344'', Some ''9000'')]),
       log_records = []\<rparr>
     = (Inr ([], Some ''6105''),
        \<lparr>chan = ([''A0A40000023F00''], [Inr (''0011223344'', Some ''9000'')]),
         log_records = []\<rparr>)"
    by (simp add: run_simps)
  have ch: "take 2 ''6105'' = ''9f'' \<or> take 2 ''6105'' = ''61''" by simp
  have tr: "trace_of (snd (send_apdu (traced scripted) ''A0A40000023F00'' 0
          \<lparr>chan = ([], [Inr ([], Some ''6105''), Inr (''0011223344'', Some ''9000'')]),
           log_records = []\<rparr>))
       = [''A0A40000023F00'', ''A0c0000005'']"
    by (simp add: send_apdu_def run_simps)
  note ex = send_apdu_continuation_class_byte[OF first ch]
  show ?thesis
    using first ch ex tr by simp
qed

text \<open>
  C5. When the first response carries a status word that starts with \<^verbatim>\<open>9f\<close> or \<^verbatim>\<open>61\<close>,
  \<^verbatim>\<open>send_apdu\<close> is one more failsafe send, from the state the first one left, of the
  command \<^verbatim>\<open>pdu[0:2] + 'c00000' + sw[2:4]\<close>: the class byte of the pdu, the fixed bytes
  C0 00 00 and SW2 of the first response (for the pdu \<^verbatim>\<open>A0A40000023F00\<close> and the status
  \<^verbatim>\<open>9f05\<close>, the bytes A0 C0 00 00 05, written \<^verbatim>\<open>A0c0000005\<close>). Its outcome is the outcome
  of \<^verbatim>\<open>send_apdu\<close>: the data of the first response is dropped. All raw transmissions after
  the first response carry that command, at least one and at most one more than the
  budget; when the channel answers the command it is transmitted once.
\<close>

theorem send_apdu_continuation_command:
  assumes "send_apdu_failsafe (traced raw) pdu N w = (Inr (data, Some sw), w1)"
    and "take 2 sw = ''9f'' \<or> take 2 sw = ''61''"
  shows "send_apdu (traced raw) pdu N w
           = send_apdu_failsafe (traced raw) (take 2 pdu @ ''c00000'' @ take 2 (drop 2 sw)) N w1
       \<and> (\<exists>m. 1 \<le> m \<and> int m \<le> max N 0 + 1 \<and>
             trace_of (snd (send_apdu (traced raw) pdu N w))
               = trace_of w1 @ replicate m (take 2 pdu @ ''c00000'' @ take 2 (drop 2 sw)))
       \<and> (\<forall>r c. raw (take 2 pdu @ ''c00000'' @ take 2 (drop 2 sw)) (snd (chan w1)) = (Inr r, c)
             \<longrightarrow> send_apdu (traced raw) pdu N w
                   = (Inr r, w1\<lparr>chan := (trace_of w1
                                 @ [take 2 pdu @ ''c00000'' @ take 2 (drop 2 sw)], c)\<rparr>))"
proof -
  let ?cmd = "take 2 pdu @ ''c00000'' @ take 2 (drop 2 sw)"
  have eq: "send_apdu (traced raw) pdu N w = send_apdu_failsafe (traced raw) ?cmd N w1"
    using assms by (rule send_apdu_chain)
  have tr: "\<exists>m. 1 \<le> m \<and> int m \<le> max N 0 + 1 \<and>
             trace_of (snd (send_apdu (traced raw) pdu N w)) = trace_of w1 @ replicate m ?cmd"
    unfolding eq by (rule send_apdu_failsafe_trace)
  have one: "send_apdu (traced raw) pdu N w = (Inr r, w1\<lparr>chan := (trace_of w1 @ [?cmd], c)\<rparr>)"
    if "raw ?cmd (snd (chan w1)) = (Inr r, c)" for r c
  proof -
    have "traced raw ?cmd (chan w1) = (Inr r, (trace_of w1 @ [?cmd], c))"
      using that by (simp add: traced_def trace_of_def)
    then show ?thesis unfolding eq by (rule send_apdu_failsafe_ok)
  qed
  from eq tr one show ?thesis by blast
qed

theorem send_apdu_continuation_command_witness:
  "send_apdu_failsafe (traced scripted) ''A0A40000023F00'' 1
      \<lparr>chan = ([], [Inr ([], Some ''9f05''), Inl ProtocolError,
                     Inr (''0011223344'', Some ''9000'')]),
       log_records = []\<rparr>
     = (Inr ([], Some ''9f05''),
        \<lparr>chan = ([''A0A40000023F00''],
                 [Inl ProtocolError, Inr (''0011223344'', Some ''9000'')]),
         log_records = []\<rparr>)
   \<and> (take 2 ''9f05'' = ''9f'' \<or> take 2 ''9f05'' = ''61'')
   \<and> take 2 ''A0A40000023F00'' @ ''c00000'' @ take 2 (drop 2 ''9f05'') = ''A0c0000005''
   \<and> send_apdu (traced scripted) ''A0A40000023F00'' 1
      \<lparr>chan = ([], [Inr ([], Some ''9f05''), Inl ProtocolError,
                     Inr (''0011223344'', Some ''9000'')]),
       log_records = []\<rparr>
     = send_apdu_failsafe (traced scripted) ''A0c0000005'' 1
        \<lparr>chan = ([''A0A40000023F00''],
                 [Inl ProtocolError, Inr (''0011223344'', Some ''9000'')]),
         log_records = []\<rparr>
   \<and> send_apdu (traced scripted) ''A0A40000023F00'' 1
      \<lparr>chan = ([], [Inr ([], Some ''9f05''), Inl ProtocolError,
                     Inr (''0011223344'', Some ''9000'')]),
       log_records = []\<rparr>
     = (Inr (''0011223344'', Some ''9000''),
        \<lparr>chan = ([''A0A40000023F00'', ''A0c0000005'', ''A0c0000005''], []),
         log_records = [retry_message ''A0c0000005'']\<rparr>)"
proof -
  have first: "send_apdu_failsafe (traced scripted) ''A0A40000023F00'' 1
      \<lparr>chan = ([], [Inr ([], Some ''9f05''), Inl ProtocolError,
                     Inr (''0011223344'', Some ''9000'')]),
       log_records = []\<rparr>
     = (Inr ([], Some ''9f05''),
        \<lparr>chan = ([''A0A40000023F00''],
                 [Inl ProtocolError, Inr (''0011223344'', Some ''9000'')]),
         log_records = []\<rparr>)"
    by (simp add: run_simps)
  have ch: "take 2 ''9f05'' = ''9f'' \<or> take 2 ''9f05'' = ''61''" by simp
  from send_apdu_continuation_command[OF first ch] first ch
  show ?thesis by (simp add: run_simps)
qed

text \<open>
  C6. \<^verbatim>\<open>send_apdu\<close> chains at most once. Two failsafe sends are at most
  \<open>2 * (max N 0 + 1)\<close> raw transmissions, and no run of \<^verbatim>\<open>send_apdu\<close> makes more. And the
  response of the continuation is the result, whatever its status word is (so also when
  it starts with \<^verbatim>\<open>9f\<close> or \<^verbatim>\<open>61\<close> again, as \<^verbatim>\<open>6112\<close> does), with the link in the state the
  continuation left: no second continuation is sent.
\<close>

theorem send_apdu_chains_once:
  "length (trace_of (snd (send_apdu (traced raw) pdu N w)))
     \<le> length (trace_of w) + 2 * nat (max N 0 + 1)
   \<and> (send_apdu_failsafe (traced raw) pdu N w = (Inr (data, Some sw), w1)
        \<and> (take 2 sw = ''9f'' \<or> take 2 sw = ''61'')
        \<and> send_apdu_failsafe (traced raw) (take 2 pdu @ ''c00000'' @ take 2 (drop 2 sw)) N w1
            = (Inr (data_gr, sw_gr), w_gr)
      \<longrightarrow> send_apdu (traced raw) pdu N w = (Inr (data_gr, sw_gr), w_gr))"
proof (intro conjI impI)
  show "length (trace_of (snd (send_apdu (traced raw) pdu N w)))
     \<le> length (trace_of w) + 2 * nat (max N 0 + 1)"
    by (rule send_apdu_trace_bound)
next
  assume a: "send_apdu_failsafe (traced raw) pdu N w = (Inr (data, Some sw), w1)
        \<and> (take 2 sw = ''9f'' \<or> take 2 sw = ''61'')
        \<and> send_apdu_failsafe (traced raw) (take 2 pdu @ ''c00000'' @ take 2 (drop 2 sw)) N w1
            = (Inr (data_gr, sw_gr), w_gr)"
  then have "send_apdu (traced raw) pdu N w
      = send_apdu_failsafe (traced raw) (take 2 pdu @ ''c00000'' @ take 2 (drop 2 sw)) N w1"
    by (intro send_apdu_chain) auto
  with a show "send_apdu (traced raw) pdu N w = (Inr (data_gr, sw_gr), w_gr)" by simp
qed

theorem send_apdu_chains_once_witness:
  "send_apdu_failsafe (traced scripted) ''A0A40000023F00'' 0
      \<lparr>chan = ([], [Inr ([], Some ''9f05''), Inr (''0011223344'', Some ''6112''),
                     Inr (''55'', Some ''9000'')]),
       log_records = []\<rparr>
     = (Inr ([], Some ''9f05''),
        \<lparr>chan = ([''A0A40000023F00''],
                 [Inr (''0011223344'', Some ''6112''), Inr (''55'', Some ''9000'')]),
         log_records = []\<rparr>)
   \<and> (take 2 ''9f05'' = ''9f'' \<or> take 2 ''9f05'' = ''61'')
   \<and> send_apdu_failsafe (traced scripted)
        (take 2 ''A0A40000023F00'' @ ''c00000'' @ take 2 (drop 2 ''9f05'')) 0
        \<lparr>chan = ([''A0A40000023F00''],
                 [Inr (''0011223344'', Some ''6112''), Inr (''55'', Some ''9000'')]),
         log_records = []\<rparr>
     = (Inr (''0011223344'', Some ''6112''),
        \<lparr>chan = ([''A0A40000023F00'', ''A0c0000005''], [Inr (''55'', Some ''9000'')]),
         log_records = []\<rparr>)
   \<and> send_apdu (traced scripted) ''A0A40000023F00'' 0
      \<lparr>chan = ([], [Inr ([], Some ''9f05''), Inr (''0011223344'', Some ''6112''),
                     Inr (''55'', Some ''9000'')]),
       log_records = []\<rparr>
     = (Inr (''0011223344'', Some ''6112''),
        \<lparr>chan = ([''A0A40000023F00'', ''A0c0000005''], [Inr (''55'', Some ''9000'')]),
         log_records = []\<rparr>)"
proof -
  have first: "send_apdu_failsafe (traced scripted) ''A0A40000023F00'' 0
      \<lparr>chan = ([], [Inr ([], Some ''9f05''), Inr (''0011223344'', Some ''6112''),
                     Inr (''55'', Some ''9000'')]),
       log_records = []\<rparr>
     = (Inr ([], Some ''9f05''),
        \<lparr>chan = ([''A0A40000023F00''],
                 [Inr (''0011223344'', Some ''6112''), Inr (''55'', Some ''9000'')]),
         log_records = []\<rparr>)"
    by (simp add: run_simps)
  have ch: "take 2 ''9f05'' = ''9f'' \<or> take 2 ''9f05'' = ''61''" by simp
  have second: "send_apdu_failsafe (traced scripted)
        (take 2 ''A0A40000023F00'' @ ''c00000'' @ take 2 (drop 2 ''9f05'')) 0
        \<lparr>chan = ([''A0A40000023F00''],
                 [Inr (''0011223344'', Some ''6112''), Inr (''55'', Some ''9000'')]),
         log_records = []\<rparr>
     = (Inr (''0011223344'', Some ''6112''),
        \<lparr>chan = ([''A0A40000023F00'', ''A0c0000005''], [Inr (''55'', Some ''9000'')]),
         log_records = []\<rparr>)"
    by (simp add: run_simps)
  from send_apdu_chains_once[where raw = scripted and pdu = "''A0A40000023F00''" and N = 0
      and data = "[]" and sw = "''9f05''" and data_gr = "''0011223344''" and sw_gr = "Some ''6112''"]
    first ch second
  show ?thesis by simp
qed

text \<open>
  C8. \<^verbatim>\<open>send_apdu_checksw\<close> runs \<^verbatim>\<open>send_apdu\<close> with the budget 0. When that returns a pair,
  the pair is returned unchanged if \<^verbatim>\<open>sw_match\<close> accepts the observed status word for the
  pattern, and otherwise \<^verbatim>\<open>SwMatchError\<close> is raised with the observed status word and the
  pattern in lower case. An exception of \<^verbatim>\<open>send_apdu\<close> passes through; with the budget 0,
  an exception of the first raw transmission is raised at once, after that one call.
\<close>

theorem send_apdu_checksw_spec:
  "(send_apdu raw pdu 0 w = (Inr (data, osw), w1) \<longrightarrow>
      send_apdu_checksw raw sw_match pdu sw w =
        (if sw_match osw sw then (Inr (data, osw), w1)
         else (Inl (SwMatchError osw (lower sw)), w1)))
   \<and> (send_apdu raw pdu 0 w = (Inl e, w1) \<longrightarrow>
        send_apdu_checksw raw sw_match pdu sw w = (Inl e, w1))
   \<and> (raw pdu (chan w) = (Inl e, c) \<longrightarrow>
        send_apdu_checksw raw sw_match pdu sw w = (Inl e, w\<lparr>chan := c\<rparr>))"
proof (intro conjI impI)
  assume "send_apdu raw pdu 0 w = (Inr (data, osw), w1)"
  then show "send_apdu_checksw raw sw_match pdu sw w =
        (if sw_match osw sw then (Inr (data, osw), w1)
         else (Inl (SwMatchError osw (lower sw)), w1))"
    by (simp add: send_apdu_checksw_def)
next
  assume "send_apdu raw pdu 0 w = (Inl e, w1)"
  then show "send_apdu_checksw raw sw_match pdu sw w = (Inl e, w1)"
    by (simp add: send_apdu_checksw_def)
next
  assume "raw pdu (chan w) = (Inl e, c)"
  then have "send_apdu_failsafe raw pdu 0 w = (Inl e, w\<lparr>chan := c\<rparr>)"
    by (rule send_apdu_failsafe_raise) simp
  then show "send_apdu_checksw raw sw_match pdu sw w = (Inl e, w\<lparr>chan := c\<rparr>)"
    by (simp add: send_apdu_checksw_def send_apdu_def)
qed

theorem send_apdu_checksw_spec_witness:
  "send_apdu (traced scripted) ''A0A40000023F00'' 0
      \<lparr>chan = ([], [Inr (''0011'', Some ''9000'')]), log_records = []\<rparr>
     = (Inr (''0011'', Some ''9000''),
        \<lparr>chan = ([''A0A40000023F00''], []), log_records = []\<rparr>)
   \<and> send_apdu_checksw (traced scripted) sw_match_spec ''A0A40000023F00'' ''9000''
      \<lparr>chan = ([], [Inr (''0011'', Some ''9000'')]), log_records = []\<rparr>
     = (Inr (''0011'', Some ''9000''),
        \<lparr>chan = ([''A0A40000023F00''], []), log_records = []\<rparr>)
   \<and> send_apdu_checksw (traced scripted) sw_match_spec ''A0A40000023F00'' ''6A8?''
      \<lparr>chan = ([], [Inr (''0011'', Some ''9000'')]), log_records = []\<rparr>
     = (Inl (SwMatchError (Some ''9000'') ''6a8?''),
        \<lparr>chan = ([''A0A40000023F00''], []), log_records = []\<rparr>)
   \<and> send_apdu (traced scripted) ''A0A40000023F00'' 0
      \<lparr>chan = ([], [Inr ([], Some ''6A82'')]), log_records = []\<rparr>
     = (Inr ([], Some ''6A82''),
        \<lparr>chan = ([''A0A40000023F00''], []), log_records = []\<rparr>)
   \<and> send_apdu_checksw (traced scripted) sw_match_spec ''A0A40000023F00'' ''9000''
      \<lparr>chan = ([], [Inr ([], Some ''6A82'')]), log_records = []\<rparr>
     = (Inl (SwMatchError (Some ''6A82'') ''9000''),
        \<lparr>chan = ([''A0A40000023F00''], []), log_records = []\<rparr>)
   \<and> traced scripted ''A0A40000023F00''
        (chan \<lparr>chan = ([], [Inl ProtocolError, Inr (''0011'', Some ''9000'')]),
               log_records = []\<rparr>)
     = (Inl ProtocolError, ([''A0A40000023F00''], [Inr (''0011'', Some ''9000'')]))
   \<and> send_apdu_checksw (traced scripted) sw_match_spec ''A0A40000023F00'' ''9000''
      \<lparr>chan = ([], [Inl ProtocolError, Inr (''0011'', Some ''9000'')]), log_records = []\<rparr>
     = (Inl ProtocolError,
        \<lparr>chan = ([''A0A40000023F00''], [Inr (''0011'', Some ''9000'')]),
         log_records = []\<rparr>)"
proof -
  have a: "send_apdu (traced scripted) ''A0A40000023F00'' 0
      \<lparr>chan = ([], [Inr (''0011'', Some ''9000'')]), log_records = []\<rparr>
     = (Inr (''0011'', Some ''9000''),
        \<lparr>chan = ([''A0A40000023F00''], []), log_records = []\<rparr>)"
    by (simp add: send_apdu_def run_simps)
  have b: "send_apdu (traced scripted) ''A0A40000023F00'' 0
      \<lparr>chan = ([], [Inr ([], Some ''6A82'')]), log_records = []\<rparr>
     = (Inr ([], Some ''6A82''),
        \<lparr>chan = ([''A0A40000023F00''], []), log_records = []\<rparr>)"
    by (simp add: send_apdu_def run_simps)
  have c: "traced scripted ''A0A40000023F00''
        (chan \<lparr>chan = ([], [Inl ProtocolError, Inr (''0011'', Some ''9000'')]),
               log_records = []\<rparr>)
     = (Inl ProtocolError, ([''A0A40000023F00''], [Inr (''0011'', Some ''9000'')]))"
    by (simp add: traced_eq)
  note t = send_apdu_checksw_spec[where raw = "traced scripted" and sw_match = sw_match_spec
      and pdu = "''A0A40000023F00''"]
  from t[where sw = "''9000''", THEN conjunct1, rule_format, OF a]
       t[where sw = "''6A8?''", THEN conjunct1, rule_format, OF a]
       t[where sw = "''9000''", THEN conjunct1, rule_format, OF b]
       t[where sw = "''9000''", THEN conjunct2, THEN conjunct2, rule_format, OF c]
       a b c
  show ?thesis
    by (simp add: lower_examples sw_match_spec_examples)
qed

text \<open>
  C9. The test for chaining compares strings: after the first response, further raw
  transmissions happen exactly when the first two characters of the status word are
  \<^verbatim>\<open>9f\<close> or \<^verbatim>\<open>61\<close> as written, in lower case. A response with the status word \<^verbatim>\<open>9F05\<close> is
  returned unchanged, with nothing more transmitted.
\<close>

theorem send_apdu_chaining_case_sensitive:
  assumes "send_apdu_failsafe (traced raw) pdu N w = (Inr (data, Some sw), w1)"
  shows "(trace_of (snd (send_apdu (traced raw) pdu N w)) \<noteq> trace_of w1
            \<longleftrightarrow> take 2 sw = ''9f'' \<or> take 2 sw = ''61'')
       \<and> (sw = ''9F05'' \<longrightarrow> send_apdu (traced raw) pdu N w = (Inr (data, Some ''9F05''), w1))"
proof -
  have a: "trace_of (snd (send_apdu (traced raw) pdu N w)) \<noteq> trace_of w1"
    if ch: "take 2 sw = ''9f'' \<or> take 2 sw = ''61''"
  proof -
    let ?cmd = "take 2 pdu @ ''c00000'' @ take 2 (drop 2 sw)"
    have eq: "send_apdu (traced raw) pdu N w = send_apdu_failsafe (traced raw) ?cmd N w1"
      using assms ch by (rule send_apdu_chain)
    from send_apdu_failsafe_trace[of N raw ?cmd w1]
    obtain m where "1 \<le> m"
      "trace_of (snd (send_apdu_failsafe (traced raw) ?cmd N w1)) = trace_of w1 @ replicate m ?cmd"
      by auto
    then show ?thesis unfolding eq by (cases m) auto
  qed
  have b: "send_apdu (traced raw) pdu N w = (Inr (data, Some sw), w1)"
    if "\<not> (take 2 sw = ''9f'' \<or> take 2 sw = ''61'')"
    using assms that by (rule send_apdu_pass)
  have c: "\<not> (take 2 ''9F05'' = ''9f'' \<or> take 2 ''9F05'' = ''61'')" by simp
  have d: "take 2 sw = ''9f'' \<or> take 2 sw = ''61''"
    if neq: "trace_of (snd (send_apdu (traced raw) pdu N w)) \<noteq> trace_of w1"
  proof (rule ccontr)
    assume "\<not> (take 2 sw = ''9f'' \<or> take 2 sw = ''61'')"
    from b[OF this] have "trace_of (snd (send_apdu (traced raw) pdu N w)) = trace_of w1"
      by simp
    with neq show False by simp
  qed
  have e: "send_apdu (traced raw) pdu N w = (Inr (data, Some ''9F05''), w1)" if "sw = ''9F05''"
    using b c that by simp
  from a d e show ?thesis by blast
qed

theorem send_apdu_chaining_case_sensitive_witness:
  "send_apdu_failsafe (traced scripted) ''A0A40000023F00'' 0
      \<lparr>chan = ([], [Inr ([], Some ''9F05''), Inr (''0011223344'', Some ''9000'')]),
       log_records = []\<rparr>
     = (Inr ([], Some ''9F05''),
        \<lparr>chan = ([''A0A40000023F00''], [Inr (''0011223344'', Some ''9000'')]),
         log_records = []\<rparr>)
   \<and> \<not> (take 2 ''9F05'' = ''9f'' \<or> take 2 ''9F05'' = ''61'')
   \<and> send_apdu (traced scripted) ''A0A40000023F00'' 0
      \<lparr>chan = ([], [Inr ([], Some ''9F05''), Inr (''0011223344'', Some ''9000'')]),
       log_records = []\<rparr>
     = (Inr ([], Some ''9F05''),
        \<lparr>chan = ([''A0A40000023F00''], [Inr (''0011223344'', Some ''9000'')]),
         log_records = []\<rparr>)"
proof -
  have first: "send_apdu_failsafe (traced scripted) ''A0A40000023F00'' 0
      \<lparr>chan = ([], [Inr ([], Some ''9F05''), Inr (''0011223344'', Some ''9000'')]),
       log_records = []\<rparr>
     = (Inr ([], Some ''9F05''),
        \<lparr>chan = ([''A0A40000023F00''], [Inr (''0011223344'', Some ''9000'')]),
         log_records = []\<rparr>)"
    by (simp add: run_simps)
  from send_apdu_chaining_case_sensitive[OF first] first
  show ?thesis by simp
qed

text \<open>
  C10. When the first failsafe send returns \<^verbatim>\<open>None\<close> as the status word, \<^verbatim>\<open>send_apdu\<close>
  does not raise: it returns the pair \<^verbatim>\<open>(data, None)\<close>, and the link is in the state the
  first send left it in.
\<close>

theorem send_apdu_sw_None:
  assumes "send_apdu_failsafe raw pdu N w = (Inr (data, None), w1)"
  shows "send_apdu raw pdu N w = (Inr (data, None), w1)"
  using assms by (simp add: send_apdu_def)

theorem send_apdu_sw_None_witness:
  "send_apdu_failsafe (traced scripted) ''A0A40000023F00'' 2
      \<lparr>chan = ([], [Inr (''0011'', None), Inr (''22'', Some ''9000'')]), log_records = []\<rparr>
     = (Inr (''0011'', None),
        \<lparr>chan = ([''A0A40000023F00''], [Inr (''22'', Some ''9000'')]), log_records = []\<rparr>)
   \<and> send_apdu (traced scripted) ''A0A40000023F00'' 2
      \<lparr>chan = ([], [Inr (''0011'', None), Inr (''22'', Some ''9000'')]), log_records = []\<rparr>
     = (Inr (''0011'', None),
        \<lparr>chan = ([''A0A40000023F00''], [Inr (''22'', Some ''9000'')]), log_records = []\<rparr>)"
proof -
  have first: "send_apdu_failsafe (traced scripted) ''A0A40000023F00'' 2
      \<lparr>chan = ([], [Inr (''0011'', None), Inr (''22'', Some ''9000'')]), log_records = []\<rparr>
     = (Inr (''0011'', None),
        \<lparr>chan = ([''A0A40000023F00''], [Inr (''22'', Some ''9000'')]), log_records = []\<rparr>)"
    by (simp add: run_simps)
  from send_apdu_sw_None[OF first] first show ?thesis by simp
qed

end
